theory Spec2Isabelle
  imports Complex_Main
begin

section \<open>JavaScript numbers and strings\<close>

text \<open>
  The program is browser JavaScript.  A JavaScript number is modelled by \<open>jsnum\<close>: a finite
  value carried as an exact real, the two infinities and NaN.  Rounding of IEEE doubles and
  negative zero are not modelled; every finite value the scorers compute is a small integer
  or a quotient of small integers, far away from any rounding threshold.

  A JavaScript string is modelled by \<open>string\<close>; a \<open>char\<close> stands for one UTF-16 code unit
  below 256, so \<open>length\<close> is the string's \<open>.length\<close>.
\<close>

datatype jsnum = Fin real | PosInf | NegInf | NaN

text \<open>The operator \<open>/\<close>: \<open>0 / 0\<close> is NaN and \<open>x / 0\<close> is an infinity.\<close>

fun js_div :: "jsnum \<Rightarrow> jsnum \<Rightarrow> jsnum" where
  "js_div NaN _ = NaN"
| "js_div _ NaN = NaN"
| "js_div (Fin a) (Fin b) =
     (if b = 0 then (if a = 0 then NaN else if 0 < a then PosInf else NegInf)
      else Fin (a / b))"
| "js_div (Fin a) _ = Fin 0"
| "js_div PosInf (Fin b) = (if 0 \<le> b then PosInf else NegInf)"
| "js_div NegInf (Fin b) = (if 0 \<le> b then NegInf else PosInf)"
| "js_div _ _ = NaN"

text \<open>The operator \<open>*\<close>: \<open>0 * Infinity\<close> is NaN.\<close>

fun js_mul :: "jsnum \<Rightarrow> jsnum \<Rightarrow> jsnum" where
  "js_mul NaN _ = NaN"
| "js_mul _ NaN = NaN"
| "js_mul (Fin a) (Fin b) = Fin (a * b)"
| "js_mul (Fin a) PosInf = (if a = 0 then NaN else if 0 < a then PosInf else NegInf)"
| "js_mul (Fin a) NegInf = (if a = 0 then NaN else if 0 < a then NegInf else PosInf)"
| "js_mul PosInf (Fin b) = (if b = 0 then NaN else if 0 < b then PosInf else NegInf)"
| "js_mul NegInf (Fin b) = (if b = 0 then NaN else if 0 < b then NegInf else PosInf)"
| "js_mul PosInf PosInf = PosInf"
| "js_mul NegInf NegInf = PosInf"
| "js_mul _ _ = NegInf"

text \<open>The operator \<open>+\<close> on numbers: \<open>Infinity + -Infinity\<close> is NaN.\<close>

fun js_add :: "jsnum \<Rightarrow> jsnum \<Rightarrow> jsnum" where
  "js_add NaN _ = NaN"
| "js_add _ NaN = NaN"
| "js_add (Fin a) (Fin b) = Fin (a + b)"
| "js_add (Fin a) y = y"
| "js_add x (Fin b) = x"
| "js_add PosInf PosInf = PosInf"
| "js_add NegInf NegInf = NegInf"
| "js_add _ _ = NaN"

text \<open>The comparison \<open><=\<close>: false as soon as one side is NaN.\<close>

fun js_le :: "jsnum \<Rightarrow> jsnum \<Rightarrow> bool" where
  "js_le NaN _ = False"
| "js_le _ NaN = False"
| "js_le (Fin a) (Fin b) = (a \<le> b)"
| "js_le NegInf _ = True"
| "js_le _ PosInf = True"
| "js_le _ _ = False"

text \<open>\<open>Math.min\<close> of two arguments, \<open>Math.ceil\<close> and \<open>Math.round\<close> (halves go up).\<close>

definition js_min :: "jsnum \<Rightarrow> jsnum \<Rightarrow> jsnum" where
  "js_min x y = (if x = NaN \<or> y = NaN then NaN else if js_le x y then x else y)"

fun js_ceil :: "jsnum \<Rightarrow> jsnum" where
  "js_ceil (Fin a) = Fin (of_int \<lceil>a\<rceil>)"
| "js_ceil x = x"

fun js_round :: "jsnum \<Rightarrow> jsnum" where
  "js_round (Fin a) = Fin (of_int \<lfloor>a + 1 / 2\<rfloor>)"
| "js_round x = x"

text \<open>
  Character classes of the regular expressions: \<open>\w\<close> is \<open>[A-Za-z0-9_]\<close>, \<open>\d\<close> is
  \<open>[0-9]\<close>, and \<open>\s\<close> (also what \<open>trim\<close> strips) is tab, line feed, vertical tab, form
  feed, carriage return, space and no-break space.  Under the flag \<open>i\<close> two code units
  match when their upper-case forms agree; the patterns of this program are ASCII, so
  only ASCII letters are folded.
\<close>

definition is_word_char :: "char \<Rightarrow> bool" where
  "is_word_char c =
     (let n = (of_char c :: nat)
      in (48 \<le> n \<and> n \<le> 57) \<or> (65 \<le> n \<and> n \<le> 90) \<or> n = 95 \<or> (97 \<le> n \<and> n \<le> 122))"

definition is_digit :: "char \<Rightarrow> bool" where
  "is_digit c = (let n = (of_char c :: nat) in 48 \<le> n \<and> n \<le> 57)"

definition is_space :: "char \<Rightarrow> bool" where
  "is_space c = (let n = (of_char c :: nat) in (9 \<le> n \<and> n \<le> 13) \<or> n = 32 \<or> n = 160)"

definition canonicalize :: "char \<Rightarrow> nat" where
  "canonicalize c = (let n = (of_char c :: nat) in if 97 \<le> n \<and> n \<le> 122 then n - 32 else n)"

subsection \<open>The assertion \<open>\b\<close> and literal, case-insensitive patterns\<close>

text \<open>
  A matcher walks the text from left to right and carries the code unit before the
  current position (\<open>None\<close> at the start of the text).  \<open>\b\<close> holds where exactly one of
  the two neighbours is a word character; outside the text there is none.
\<close>

definition prev_is_word :: "char option \<Rightarrow> bool" where
  "prev_is_word p = (case p of None \<Rightarrow> False | Some c \<Rightarrow> is_word_char c)"

definition next_is_word :: "string \<Rightarrow> bool" where
  "next_is_word s = (case s of [] \<Rightarrow> False | c # _ \<Rightarrow> is_word_char c)"

definition word_boundary :: "char option \<Rightarrow> string \<Rightarrow> bool" where
  "word_boundary p s = (prev_is_word p \<noteq> next_is_word s)"

text \<open>
  \<open>ci_consume w p s\<close> matches the literal \<open>w\<close> at the front of \<open>s\<close> under the flag \<open>i\<close>
  and returns the last code unit consumed with the rest of the text.
\<close>

fun ci_consume :: "string \<Rightarrow> char option \<Rightarrow> string \<Rightarrow> (char option \<times> string) option" where
  "ci_consume [] p s = Some (p, s)"
| "ci_consume (x # xs) p [] = None"
| "ci_consume (x # xs) p (c # cs) =
     (if canonicalize x = canonicalize c then ci_consume xs (Some c) cs else None)"

text \<open>The pattern \<open>\bw\b\<close> at the current position, and at some position from here on.\<close>

definition word_here :: "string \<Rightarrow> char option \<Rightarrow> string \<Rightarrow> bool" where
  "word_here w p s =
     (word_boundary p s \<and>
      (case ci_consume w p s of None \<Rightarrow> False | Some (p', s') \<Rightarrow> word_boundary p' s'))"

fun word_search :: "string \<Rightarrow> char option \<Rightarrow> string \<Rightarrow> bool" where
  "word_search w p [] = word_here w p []"
| "word_search w p (c # cs) = (word_here w p (c # cs) \<or> word_search w (Some c) cs)"


definition regex_word_test :: "string \<Rightarrow> string \<Rightarrow> bool" where
  "regex_word_test word text = word_search word None text"



section \<open>The lexical heuristic scorer\<close>

text \<open>
  \<^verbatim>\<open>
  function scoreByKeywords(text, keywords) {
      const matches = keywords.filter(word =>
          new RegExp('\\b' + word + '\\b', 'i').test(text)
      ).length;
      return Math.min(5, Math.ceil(matches * (5 / Math.ceil(keywords.length / 2))));
  }
  \<close>
\<close>

definition scoreByKeywords :: "string \<Rightarrow> string list \<Rightarrow> jsnum" where
  "scoreByKeywords text keywords =
     (let matches = length (filter (\<lambda>word. regex_word_test word text) keywords)
      in js_min (Fin 5)
           (js_ceil (js_mul (Fin (real matches))
              (js_div (Fin 5) (js_ceil (js_div (Fin (real (length keywords))) (Fin 2)))))))"

text \<open>
  The criteria of the content dimension, each a fixed keyword list.
\<close>

definition hasPersonalBackground :: "string \<Rightarrow> jsnum" where
  "hasPersonalBackground text =
     scoreByKeywords text [''I'', ''my'', ''background'', ''experience'', ''grew up'', ''family'']"

definition hasEducationalExperience :: "string \<Rightarrow> jsnum" where
  "hasEducationalExperience text =
     scoreByKeywords text [''study'', ''university'', ''degree'', ''major'', ''course'', ''project'']"

definition hasCareerGoals :: "string \<Rightarrow> jsnum" where
  "hasCareerGoals text =
     scoreByKeywords text [''goal'', ''career'', ''future'', ''aspire'', ''aim'', ''plan'']"

definition hasSchoolChoice :: "string \<Rightarrow> jsnum" where
  "hasSchoolChoice text =
     scoreByKeywords text [''program'', ''school'', ''university'', ''faculty'', ''research'', ''choose'']"

definition hasUniqueness :: "string \<Rightarrow> jsnum" where
  "hasUniqueness text =
     scoreByKeywords text [''unique'', ''different'', ''special'', ''distinguish'', ''stand out'']"

definition hasSpecificExamples :: "string \<Rightarrow> jsnum" where
  "hasSpecificExamples text =
     scoreByKeywords text [''example'', ''instance'', ''specifically'', ''particular'', ''case'']"

text \<open>
  The criteria of the narrative dimension.  \<open>text.split('\n')[0]\<close> is the text before the
  first line feed and \<open>text.split('\n').slice(-1)[0]\<close> the text after the last one.
\<close>

definition line_feed :: char where
  "line_feed = CHR 0x0A"

definition first_paragraph :: "string \<Rightarrow> string" where
  "first_paragraph text = takeWhile (\<lambda>c. c \<noteq> line_feed) text"

definition last_paragraph :: "string \<Rightarrow> string" where
  "last_paragraph text = rev (takeWhile (\<lambda>c. c \<noteq> line_feed) (rev text))"

definition hasStrongOpening :: "string \<Rightarrow> jsnum" where
  "hasStrongOpening text =
     scoreByKeywords (first_paragraph text) [''question'', ''quote'', ''anecdote'', ''statistic'']"

definition hasCoherentStructure :: "string \<Rightarrow> jsnum" where
  "hasCoherentStructure text =
     scoreByKeywords text [''however'', ''therefore'', ''moreover'', ''consequently'', ''additionally'']"

definition hasConflictResolution :: "string \<Rightarrow> jsnum" where
  "hasConflictResolution text =
     scoreByKeywords text [''challenge'', ''problem'', ''obstacle'', ''overcome'', ''solve'', ''resolution'']"

definition hasNarrativeDepth :: "string \<Rightarrow> jsnum" where
  "hasNarrativeDepth text =
     scoreByKeywords text [''because'', ''reason'', ''impact'', ''result'', ''learn'', ''reflect'']"

definition hasStrongClosing :: "string \<Rightarrow> jsnum" where
  "hasStrongClosing text =
     scoreByKeywords (last_paragraph text) [''conclusion'', ''therefore'', ''finally'', ''future'', ''contribute'']"

subsection \<open>Red flags of a sentence\<close>

text \<open>
  \<open>/\b(very|really|things|stuff)\b/i\<close> and \<open>/\b(always|never|all|none|every|everyone)\b/i\<close>
  succeed when one of the alternatives stands between two word boundaries somewhere in
  the sentence.  \<open>/(am|is|are|was|were) (passionate|interested|excited) (about|in)/i\<close> has
  no boundary assertion: it succeeds when one of its thirty phrases occurs anywhere.
\<close>

definition regex_any_word_test :: "string list \<Rightarrow> string \<Rightarrow> bool" where
  "regex_any_word_test alternatives s = (\<exists>w \<in> set alternatives. regex_word_test w s)"

fun ci_search :: "string \<Rightarrow> string \<Rightarrow> bool" where
  "ci_search w [] = (ci_consume w None [] \<noteq> None)"
| "ci_search w (c # cs) = (ci_consume w None (c # cs) \<noteq> None \<or> ci_search w cs)"

definition cliche_phrases :: "string list" where
  "cliche_phrases =
     concat (map (\<lambda>a. concat (map (\<lambda>b. map (\<lambda>c. a @ '' '' @ b @ '' '' @ c) [''about'', ''in''])
                                    [''passionate'', ''interested'', ''excited'']))
                 [''am'', ''is'', ''are'', ''was'', ''were''])"

definition vague_language :: "string \<Rightarrow> bool" where
  "vague_language s = regex_any_word_test [''very'', ''really'', ''things'', ''stuff''] s"

definition cliche_phrase :: "string \<Rightarrow> bool" where
  "cliche_phrase s = (\<exists>w \<in> set cliche_phrases. ci_search w s)"

definition absolute_statement :: "string \<Rightarrow> bool" where
  "absolute_statement s =
     regex_any_word_test [''always'', ''never'', ''all'', ''none'', ''every'', ''everyone''] s"

text \<open>
  \<^verbatim>\<open>
  function needsModification(sentence) {
      const redFlags = [
          sentence.length > 50,  // Too long
          sentence.length < 10,  // Too short
          /\b(very|really|things|stuff)\b/i.test(sentence),  // Vague language
          /(am|is|are|was|were) (passionate|interested|excited) (about|in)/i.test(sentence),
          /\b(always|never|all|none|every|everyone)\b/i.test(sentence)  // Absolute statements
      ];
      return redFlags.filter(flag => flag).length >= 2;
  }
  \<close>
\<close>

definition needsModification :: "string \<Rightarrow> bool" where
  "needsModification sentence =
     (let redFlags =
        [50 < length sentence,
         length sentence < 10,
         vague_language sentence,
         cliche_phrase sentence,
         absolute_statement sentence]
      in 2 \<le> length (filter (\<lambda>flag. flag) redFlags))"

subsection \<open>The keyword-scoring version of the script\<close>

text \<open>
  The version of \<open>script.js\<close> that scores without the generation service
  (\<open>src/unnamed/part_002\<close>).  Its functions carry the prefix \<open>heuristic_\<close> here, since the
  current \<open>public/script.js\<close> defines functions of the same names.
\<close>

definition heuristic_evaluateContent :: "string \<Rightarrow> jsnum" where
  "heuristic_evaluateContent text =
     (let criteria =
        [hasPersonalBackground text,
         hasEducationalExperience text,
         hasCareerGoals text,
         hasSchoolChoice text,
         hasUniqueness text,
         hasSpecificExamples text];
          totalPoints = foldl js_add (Fin 0) criteria
      in js_round (js_mul (js_div totalPoints (Fin (real (length criteria * 5)))) (Fin 100)))"

definition heuristic_evaluateNarrative :: "string \<Rightarrow> jsnum" where
  "heuristic_evaluateNarrative text =
     (let criteria =
        [hasStrongOpening text,
         hasCoherentStructure text,
         hasConflictResolution text,
         hasNarrativeDepth text,
         hasStrongClosing text];
          totalPoints = foldl js_add (Fin 0) criteria
      in js_round (js_mul (js_div totalPoints (Fin (real (length criteria * 5)))) (Fin 100)))"

text \<open>
  \<^verbatim>\<open>
  function evaluateLanguage(sentences) {
      const modificationNeeded = sentences.filter(sentence =>
          needsModification(sentence)
      ).length;
      const modificationPercentage = (modificationNeeded / sentences.length) * 100;
      let score;
      if (modificationPercentage <= 5) score = 5;
      else if (modificationPercentage <= 10) score = 4;
      else if (modificationPercentage <= 20) score = 3;
      else if (modificationPercentage <= 30) score = 2;
      else score = 1;
      return Math.round((score / 5) * 100);
  }
  \<close>
\<close>

definition heuristic_evaluateLanguage :: "string list \<Rightarrow> jsnum" where
  "heuristic_evaluateLanguage sentences =
     (let modificationNeeded = length (filter needsModification sentences);
          modificationPercentage =
            js_mul (js_div (Fin (real modificationNeeded)) (Fin (real (length sentences)))) (Fin 100);
          score =
            (if js_le modificationPercentage (Fin 5) then Fin 5
             else if js_le modificationPercentage (Fin 10) then Fin 4
             else if js_le modificationPercentage (Fin 20) then Fin 3
             else if js_le modificationPercentage (Fin 30) then Fin 2
             else Fin 1)
      in js_round (js_mul (js_div score (Fin 5)) (Fin 100)))"

text \<open>
  \<open>text.split(/[.!?]+/)\<close>: the pieces between maximal runs of sentence punctuation, with
  an empty piece before a leading run and after a trailing one.  The second argument is
  the piece being read, reversed; the flag says that the last code unit was punctuation.
\<close>

definition is_sentence_end :: "char \<Rightarrow> bool" where
  "is_sentence_end c = (c = CHR ''.'' \<or> c = CHR ''!'' \<or> c = CHR ''?'')"

fun split_punct :: "bool \<Rightarrow> string \<Rightarrow> string \<Rightarrow> string list" where
  "split_punct in_run piece [] = [rev piece]"
| "split_punct in_run piece (c # cs) =
     (if is_sentence_end c
      then (if in_run then split_punct True piece cs else rev piece # split_punct True [] cs)
      else split_punct False (c # piece) cs)"

definition trim :: "string \<Rightarrow> string" where
  "trim s = rev (dropWhile is_space (rev (dropWhile is_space s)))"

text \<open>\<open>text.split(/[.!?]+/).filter(s => s.trim())\<close>: an empty string is falsy.\<close>

definition split_sentences :: "string \<Rightarrow> string list" where
  "split_sentences text = filter (\<lambda>s. trim s \<noteq> []) (split_punct False [] text)"

datatype dimension = Content | Narrative | Language

definition WEIGHTS :: "dimension \<Rightarrow> jsnum" where
  "WEIGHTS d = (case d of Content \<Rightarrow> Fin (4 / 10) | Narrative \<Rightarrow> Fin (4 / 10) | Language \<Rightarrow> Fin (2 / 10))"

record 'a evaluation =
  content :: 'a
  narrative :: 'a
  language :: 'a
  final_score :: jsnum

text \<open>
  \<^verbatim>\<open>
  function evaluateText(text) {
      const sentences = text.split(/[.!?]+/).filter(s => s.trim());
      const contentScore = evaluateContent(text);
      const narrativeScore = evaluateNarrative(text);
      const languageScore = evaluateLanguage(sentences);
      const finalScore = Math.round(
          contentScore * WEIGHTS.content +
          narrativeScore * WEIGHTS.narrative +
          languageScore * WEIGHTS.language
      );
      return { content: contentScore, narrative: narrativeScore,
               language: languageScore, final_score: finalScore };
  }
  \<close>
\<close>

definition heuristic_evaluateText :: "string \<Rightarrow> jsnum evaluation" where
  "heuristic_evaluateText text =
     (let sentences = split_sentences text;
          contentScore = heuristic_evaluateContent text;
          narrativeScore = heuristic_evaluateNarrative text;
          languageScore = heuristic_evaluateLanguage sentences;
          finalScore =
            js_round
              (js_add
                (js_add (js_mul contentScore (WEIGHTS Content))
                        (js_mul narrativeScore (WEIGHTS Narrative)))
                (js_mul languageScore (WEIGHTS Language)))
      in \<lparr>content = contentScore, narrative = narrativeScore,
          language = languageScore, final_score = finalScore\<rparr>)"

section \<open>The response parser\<close>

text \<open>
  Values that are not numbers or strings of the program's own: what \<open>response.json()\<close>
  can deliver, and \<open>undefined\<close> for a property that is not there.  An object is its list
  of properties.
\<close>

datatype jsval =
    JUndefined
  | JNull
  | JBool bool
  | JNumber real
  | JString string
  | JArray "jsval list"
  | JObject "(string \<times> jsval) list"

datatype js_error = TypeError

record DimensionResult =
  score :: jsnum
  feedback :: string

text \<open>A literal at the front of the text, case-sensitively (these patterns have no flag).\<close>

fun strip_prefix :: "string \<Rightarrow> string \<Rightarrow> string option" where
  "strip_prefix [] s = Some s"
| "strip_prefix (x # xs) [] = None"
| "strip_prefix (x # xs) (c # cs) = (if x = c then strip_prefix xs cs else None)"

text \<open>
  \<open>/Score:\s*(\d+)\/100/\<close> at the current position: the literal, the longest run of
  white space, the longest non-empty run of digits, the literal \<open>/100\<close>.  Giving back
  white space or digits cannot help, since the next code unit wanted is of another class.
  The result is the first capture group.  \<open>score_match\<close> is the leftmost match.
\<close>

definition score_here :: "string \<Rightarrow> string option" where
  "score_here s =
     (case strip_prefix ''Score:'' s of
        None \<Rightarrow> None
      | Some r \<Rightarrow>
          (let r' = dropWhile is_space r; digits = takeWhile is_digit r'
           in if digits \<noteq> [] \<and> strip_prefix ''/100'' (dropWhile is_digit r') \<noteq> None
              then Some digits else None))"

fun score_match :: "string \<Rightarrow> string option" where
  "score_match [] = score_here []"
| "score_match (c # cs) = (case score_here (c # cs) of Some d \<Rightarrow> Some d | None \<Rightarrow> score_match cs)"

text \<open>\<open>parseInt\<close> of a run of decimal digits.\<close>

definition parseInt :: "string \<Rightarrow> jsnum" where
  "parseInt digits = Fin (real (foldl (\<lambda>n c. 10 * n + (of_char c - 48)) 0 digits))"

text \<open>
  \<open>/Feedback:\s*([\s\S]*?)(?=Score:|$)/\<close>: after the literal and the longest run of white
  space, the lazy group takes code units up to the first position where \<open>Score:\<close> follows
  or the text ends; such a position always exists, so the leftmost \<open>Feedback:\<close> matches.
\<close>

fun until_score :: "string \<Rightarrow> string" where
  "until_score [] = []"
| "until_score (c # cs) =
     (if strip_prefix ''Score:'' (c # cs) \<noteq> None then [] else c # until_score cs)"

definition feedback_here :: "string \<Rightarrow> string option" where
  "feedback_here s =
     (case strip_prefix ''Feedback:'' s of
        None \<Rightarrow> None
      | Some r \<Rightarrow> Some (until_score (dropWhile is_space r)))"

fun feedback_match :: "string \<Rightarrow> string option" where
  "feedback_match [] = feedback_here []"
| "feedback_match (c # cs) =
     (case feedback_here (c # cs) of Some f \<Rightarrow> Some f | None \<Rightarrow> feedback_match cs)"

text \<open>
  \<^verbatim>\<open>
  function parseEvaluationResponse(response) {
      try {
          const scoreMatch = response.match(/Score:\s*(\d+)\/100/);
          const score = scoreMatch ? parseInt(scoreMatch[1]) : 0;
          const feedbackMatch = response.match(/Feedback:\s*([\s\S]*?)(?=Score:|$)/);
          const feedback = feedbackMatch ? feedbackMatch[1].trim() : 'No feedback available';
          return { score, feedback };
      } catch (error) {
          return { score: 0, feedback: 'Error parsing evaluation response.' };
      }
  }
  \<close>
  \<open>parse_body\<close> is the body of the \<open>try\<close>: only a string has a method \<open>match\<close>, on any
  other value the call throws a TypeError.
\<close>

definition parse_body :: "jsval \<Rightarrow> js_error + DimensionResult" where
  "parse_body response =
     (case response of
        JString s \<Rightarrow>
          Inr \<lparr>score = (case score_match s of Some d \<Rightarrow> parseInt d | None \<Rightarrow> Fin 0),
               feedback = (case feedback_match s of Some f \<Rightarrow> trim f
                           | None \<Rightarrow> ''No feedback available'')\<rparr>
      | _ \<Rightarrow> Inl TypeError)"

definition parseEvaluationResponse :: "jsval \<Rightarrow> DimensionResult" where
  "parseEvaluationResponse response =
     (case parse_body response of
        Inr r \<Rightarrow> r
      | Inl e \<Rightarrow> \<lparr>score = Fin 0, feedback = ''Error parsing evaluation response.''\<rparr>)"

section \<open>The dimension evaluators\<close>

text \<open>
  The generation service is a parameter: it maps the messages of a request to what the
  two awaited steps deliver.  \<open>Rejected\<close>: the promise of \<open>fetch\<close> rejects (network
  error).  \<open>NotJson\<close>: \<open>response.json()\<close> rejects (empty or malformed body).  \<open>Json v\<close>: the
  body parses to \<open>v\<close>, whatever the status code.
\<close>

datatype http_outcome = Rejected | NotJson | Json jsval

type_synonym chat_message = "string \<times> string"

type_synonym generation_api = "chat_message list \<Rightarrow> http_outcome"

text \<open>
  Reading \<open>v.k\<close> for one of the names \<open>choices\<close>, \<open>message\<close>, \<open>content\<close> (no built-in
  prototype defines them) and reading \<open>v[0]\<close>: both throw on \<open>undefined\<close> and \<open>null\<close>.
\<close>

fun get_prop :: "jsval \<Rightarrow> string \<Rightarrow> js_error + jsval" where
  "get_prop JUndefined k = Inl TypeError"
| "get_prop JNull k = Inl TypeError"
| "get_prop (JObject ps) k = Inr (case map_of ps k of None \<Rightarrow> JUndefined | Some v \<Rightarrow> v)"
| "get_prop v k = Inr JUndefined"

fun first_element :: "jsval \<Rightarrow> js_error + jsval" where
  "first_element JUndefined = Inl TypeError"
| "first_element JNull = Inl TypeError"
| "first_element (JArray xs) = Inr (case xs of [] \<Rightarrow> JUndefined | x # _ \<Rightarrow> x)"
| "first_element (JString s) = Inr (case s of [] \<Rightarrow> JUndefined | c # _ \<Rightarrow> JString [c])"
| "first_element (JObject ps) = Inr (case map_of ps ''0'' of None \<Rightarrow> JUndefined | Some v \<Rightarrow> v)"
| "first_element v = Inr JUndefined"

definition and_then :: "js_error + 'a \<Rightarrow> ('a \<Rightarrow> js_error + 'b) \<Rightarrow> js_error + 'b" where
  "and_then r f = (case r of Inl e \<Rightarrow> Inl e | Inr v \<Rightarrow> f v)"

text \<open>\<open>data.choices[0].message.content\<close>\<close>

definition message_content :: "jsval \<Rightarrow> js_error + jsval" where
  "message_content data =
     and_then (and_then (and_then (get_prop data ''choices'') first_element)
                 (\<lambda>choice. get_prop choice ''message''))
       (\<lambda>message. get_prop message ''content'')"

definition content_prompt :: "string \<Rightarrow> string" where
  "content_prompt text =
     ''Please evaluate this Statement of Purpose (SOP) text for content quality. Focus on:\<newline>'' @
     ''    - Personal Background Detail\<newline>'' @
     ''    - Educational Experience Relevance\<newline>'' @
     ''    - Career Goals Clarity\<newline>'' @
     ''    - School/Program Choice Reasoning\<newline>'' @
     ''    - Uniqueness Demonstration\<newline>'' @
     ''    - Specific Examples\<newline>'' @
     ''\<newline>'' @
     ''    Provide a score out of 100 and detailed feedback.\<newline>'' @
     ''    Format your response as: Score: X/100\<newline>Feedback: [your detailed feedback]\<newline>'' @
     ''\<newline>'' @
     ''    Text to evaluate:\<newline>'' @
     ''    '' @ text"

definition narrative_prompt :: "string \<Rightarrow> string" where
  "narrative_prompt text =
     ''Please evaluate this Statement of Purpose (SOP) text for narrative quality. Focus on:\<newline>'' @
     ''    - Opening Engagement\<newline>'' @
     ''    - Narrative Coherence\<newline>'' @
     ''    - Conflict Resolution\<newline>'' @
     ''    - Narrative Depth\<newline>'' @
     ''    - Closing Impression\<newline>'' @
     ''\<newline>'' @
     ''    Provide a score out of 100 and detailed feedback.\<newline>'' @
     ''    Format your response as: Score: X/100\<newline>Feedback: [your detailed feedback]\<newline>'' @
     ''\<newline>'' @
     ''    Text to evaluate:\<newline>'' @
     ''    '' @ text"

definition language_prompt :: "string \<Rightarrow> string" where
  "language_prompt text =
     ''Please evaluate this Statement of Purpose (SOP) text for language quality. Focus on:\<newline>'' @
     ''    - Grammar and mechanics\<newline>'' @
     ''    - Vocabulary usage\<newline>'' @
     ''    - Sentence structure\<newline>'' @
     ''    - Academic tone\<newline>'' @
     ''    - Overall fluency\<newline>'' @
     ''\<newline>'' @
     ''    Provide a score out of 100 and detailed feedback.\<newline>'' @
     ''    Format your response as: Score: X/100\<newline>Feedback: [your detailed feedback]\<newline>'' @
     ''\<newline>'' @
     ''    Text to evaluate:\<newline>'' @
     ''    '' @ text"

text \<open>
  \<^verbatim>\<open>
  async function evaluateContent(text) {
      const prompt = `...${text}`;
      try {
          const response = await fetch('https://api.deepseek.com/v1/chat/completions', {
              ..., body: JSON.stringify({ model: "deepseek-chat",
                                          messages: [{ role: "user", content: prompt }] }) });
          const data = await response.json();
          return parseEvaluationResponse(data.choices[0].message.content);
      } catch (error) {
          return { score: 0, feedback: 'Error evaluating content. Please try again.' };
      }
  }
  \<close>
  \<open>evaluateNarrative\<close> and \<open>evaluateLanguage\<close> differ in the prompt and in the message.
\<close>

definition evaluateContent :: "generation_api \<Rightarrow> string \<Rightarrow> DimensionResult" where
  "evaluateContent api text =
     (case api [(''user'', content_prompt text)] of
        Json data \<Rightarrow>
          (case message_content data of
             Inr c \<Rightarrow> parseEvaluationResponse c
           | Inl e \<Rightarrow> \<lparr>score = Fin 0, feedback = ''Error evaluating content. Please try again.''\<rparr>)
      | _ \<Rightarrow> \<lparr>score = Fin 0, feedback = ''Error evaluating content. Please try again.''\<rparr>)"

definition evaluateNarrative :: "generation_api \<Rightarrow> string \<Rightarrow> DimensionResult" where
  "evaluateNarrative api text =
     (case api [(''user'', narrative_prompt text)] of
        Json data \<Rightarrow>
          (case message_content data of
             Inr c \<Rightarrow> parseEvaluationResponse c
           | Inl e \<Rightarrow> \<lparr>score = Fin 0, feedback = ''Error evaluating narrative. Please try again.''\<rparr>)
      | _ \<Rightarrow> \<lparr>score = Fin 0, feedback = ''Error evaluating narrative. Please try again.''\<rparr>)"

definition evaluateLanguage :: "generation_api \<Rightarrow> string \<Rightarrow> DimensionResult" where
  "evaluateLanguage api text =
     (case api [(''user'', language_prompt text)] of
        Json data \<Rightarrow>
          (case message_content data of
             Inr c \<Rightarrow> parseEvaluationResponse c
           | Inl e \<Rightarrow> \<lparr>score = Fin 0, feedback = ''Error evaluating language. Please try again.''\<rparr>)
      | _ \<Rightarrow> \<lparr>score = Fin 0, feedback = ''Error evaluating language. Please try again.''\<rparr>)"

section \<open>The suggestion generator and the orchestrator\<close>

text \<open>
  The object that \<open>evaluateText\<close> hands to the suggestion generator has the properties
  \<open>content\<close>, \<open>narrative\<close>, \<open>language\<close> (each an object \<open>{score, feedback}\<close>) and
  \<open>final_score\<close>.  A template literal converts each \<open>${...}\<close> to a string: a plain object
  becomes \<open>[object Object]\<close>, and a property the object does not have is \<open>undefined\<close> and
  becomes \<open>undefined\<close>.
\<close>

definition template_object :: "DimensionResult \<Rightarrow> string" where
  "template_object r = ''[object Object]''"

definition template_undefined :: string where
  "template_undefined = ''undefined''"

text \<open>
  \<^verbatim>\<open>
  const prompt = `As an expert SOP evaluator, please provide specific suggestions to improve this Statement of Purpose. Focus on the following aspects:

  1. Content (${scores.content}/100):
  ${scores.contentFeedback}

  2. Narrative Structure (${scores.narrative}/100):
  ${scores.narrativeFeedback}

  3. Language Usage (${scores.language}/100):
  ${scores.languageFeedback}

  Please analyze the following SOP and provide clear, actionable suggestions for improvement:

  ${text}

  Format your response as a bulleted list of specific suggestions, focusing on the most critical improvements needed.`;
  \<close>
  (the lines of the literal start in the first column).  \<open>scores.contentFeedback\<close>,
  \<open>scores.narrativeFeedback\<close> and \<open>scores.languageFeedback\<close> are not properties of the
  object passed.
\<close>

definition suggestions_prompt :: "string \<Rightarrow> DimensionResult evaluation \<Rightarrow> string" where
  "suggestions_prompt text scores =
     ''As an expert SOP evaluator, please provide specific suggestions to improve this Statement of Purpose. Focus on the following aspects:\<newline>'' @
     ''\<newline>'' @
     ''1. Content ('' @ template_object (content scores) @ ''/100):\<newline>'' @
     template_undefined @ ''\<newline>'' @
     ''\<newline>'' @
     ''2. Narrative Structure ('' @ template_object (narrative scores) @ ''/100):\<newline>'' @
     template_undefined @ ''\<newline>'' @
     ''\<newline>'' @
     ''3. Language Usage ('' @ template_object (language scores) @ ''/100):\<newline>'' @
     template_undefined @ ''\<newline>'' @
     ''\<newline>'' @
     ''Please analyze the following SOP and provide clear, actionable suggestions for improvement:\<newline>'' @
     ''\<newline>'' @
     text @ ''\<newline>'' @
     ''\<newline>'' @
     ''Format your response as a bulleted list of specific suggestions, focusing on the most critical improvements needed.''"

text \<open>
  \<open>data.choices?.[0]?.message?.content\<close>: \<open>data.choices\<close> is read as before; from there on
  a link whose base is \<open>undefined\<close> or \<open>null\<close> gives \<open>undefined\<close>.
\<close>

fun nullish :: "jsval \<Rightarrow> bool" where
  "nullish JUndefined = True"
| "nullish JNull = True"
| "nullish v = False"

fun truthy :: "jsval \<Rightarrow> bool" where
  "truthy JUndefined = False"
| "truthy JNull = False"
| "truthy (JBool b) = b"
| "truthy (JNumber x) = (x \<noteq> 0)"
| "truthy (JString s) = (s \<noteq> [])"
| "truthy v = True"

definition optional_message_content :: "jsval \<Rightarrow> js_error + jsval" where
  "optional_message_content data =
     and_then (and_then (and_then (get_prop data ''choices'')
                   (\<lambda>choices. if nullish choices then Inr JUndefined else first_element choices))
                 (\<lambda>choice. if nullish choice then Inr JUndefined else get_prop choice ''message''))
       (\<lambda>message. if nullish message then Inr JUndefined else get_prop message ''content'')"

text \<open>
  \<^verbatim>\<open>
  async function generateModificationSuggestions(text, scores) {
      const prompt = `...`;
      try {
          const response = await fetch('https://api.deepseek.com/v1/chat/completions', {
              ..., body: JSON.stringify({ model: "deepseek-chat",
                  messages: [
                      { role: "system", content: "You are an expert SOP evaluator providing specific improvement suggestions." },
                      { role: "user", content: prompt } ],
                  temperature: 0.7, max_tokens: 1000 }) });
          const data = await response.json();
          if (!data.choices?.[0]?.message?.content) {
              throw new Error('Invalid API response format');
          }
          return data.choices[0].message.content;
      } catch (error) {
          return 'Unable to generate suggestions at this time.';
      }
  }
  \<close>
\<close>

definition generateModificationSuggestions ::
  "generation_api \<Rightarrow> string \<Rightarrow> DimensionResult evaluation \<Rightarrow> jsval" where
  "generateModificationSuggestions api text scores =
     (case api [(''system'', ''You are an expert SOP evaluator providing specific improvement suggestions.''),
                (''user'', suggestions_prompt text scores)] of
        Json data \<Rightarrow>
          (case optional_message_content data of
             Inr c \<Rightarrow>
               (if truthy c
                then (case message_content data of
                        Inr v \<Rightarrow> v
                      | Inl e \<Rightarrow> JString ''Unable to generate suggestions at this time.'')
                else JString ''Unable to generate suggestions at this time.'')
           | Inl e \<Rightarrow> JString ''Unable to generate suggestions at this time.'')
      | _ \<Rightarrow> JString ''Unable to generate suggestions at this time.'')"

record 'a evaluation_report = "'a evaluation" +
  suggestions :: jsval

text \<open>
  The orchestrator of \<open>public/script.js\<close>, without its updates of the page:
  \<^verbatim>\<open>
  async function evaluateText(text) {
      try {
          const contentResult = await evaluateContent(text);
          const narrativeResult = await evaluateNarrative(text);
          const languageResult = await evaluateLanguage(text);
          const finalScore = (
              contentResult.score * WEIGHTS.content +
              narrativeResult.score * WEIGHTS.narrative +
              languageResult.score * WEIGHTS.language
          ) / 100;
          const results = { content: contentResult, narrative: narrativeResult,
                            language: languageResult, final_score: finalScore };
          const suggestions = await generateModificationSuggestions(text, results);
          results.suggestions = suggestions;
          displayScores(results);
          return results;
      } catch (error) { ...; throw error; }
  }
  \<close>
\<close>

definition evaluateText :: "generation_api \<Rightarrow> string \<Rightarrow> DimensionResult evaluation_report" where
  "evaluateText api text =
     (let contentResult = evaluateContent api text;
          narrativeResult = evaluateNarrative api text;
          languageResult = evaluateLanguage api text;
          finalScore =
            js_div
              (js_add
                (js_add (js_mul (score contentResult) (WEIGHTS Content))
                        (js_mul (score narrativeResult) (WEIGHTS Narrative)))
                (js_mul (score languageResult) (WEIGHTS Language)))
              (Fin 100);
          results = \<lparr>content = contentResult, narrative = narrativeResult,
                     language = languageResult, final_score = finalScore\<rparr>;
          suggestions = generateModificationSuggestions api text results
      in \<lparr>content = contentResult, narrative = narrativeResult,
          language = languageResult, final_score = finalScore, suggestions = suggestions\<rparr>)"

section \<open>Failure cases and a run with one failed dimension\<close>

text \<open>
  The result a failed evaluator is to return:
  \<open>{score: 0, feedback: "Error evaluating <dimension>. Please try again."}\<close>.
\<close>

definition error_result :: "string \<Rightarrow> DimensionResult" where
  "error_result dimension_name =
     \<lparr>score = Fin 0, feedback = ''Error evaluating '' @ dimension_name @ ''. Please try again.''\<rparr>"

text \<open>
  A request has failed when the network call is rejected, when the body is not JSON, or
  when the payload has no \<open>choices[0].message\<close> to read \<open>content\<close> from.  In a payload
  that has one, \<open>content\<close> can still be something else than a string (\<open>null\<close>, or absent).
\<close>

definition call_failed :: "http_outcome \<Rightarrow> bool" where
  "call_failed outcome =
     (case outcome of
        Rejected \<Rightarrow> True
      | NotJson \<Rightarrow> True
      | Json data \<Rightarrow> (case message_content data of Inl e \<Rightarrow> True | Inr c \<Rightarrow> False))"

definition content_not_text :: "http_outcome \<Rightarrow> bool" where
  "content_not_text outcome =
     (case outcome of
        Json data \<Rightarrow>
          (case message_content data of
             Inl e \<Rightarrow> False
           | Inr c \<Rightarrow> (case c of JString s \<Rightarrow> False | _ \<Rightarrow> True))
      | _ \<Rightarrow> False)"

text \<open>The payload of a chat completion whose message has the given content.\<close>

definition completion :: "jsval \<Rightarrow> jsval" where
  "completion c =
     JObject [(''choices'',
       JArray [JObject [(''message'', JObject [(''role'', JString ''assistant''), (''content'', c)])]])]"

text \<open>
  A service whose answer to the content request is a network error, while the narrative
  and the language request are answered with the scores 80 and 90.
\<close>

definition scenario_api :: "string \<Rightarrow> generation_api" where
  "scenario_api text messages =
     (if messages = [(''user'', content_prompt text)] then Rejected
      else if messages = [(''user'', narrative_prompt text)]
        then Json (completion (JString ''Score: 80/100\<newline>Feedback: Coherent.''))
      else if messages = [(''user'', language_prompt text)]
        then Json (completion (JString ''Score: 90/100\<newline>Feedback: Fluent.''))
      else Json (completion (JString ''- Add a concrete example.'')))"

section \<open>Properties of the keyword scorer\<close>

lemmas match_defs = regex_word_test_def word_here_def word_boundary_def prev_is_word_def
  next_is_word_def is_word_char_def canonicalize_def

subsection \<open>The matcher and the whole-word match\<close>





subsection \<open>The score formula\<close>






subsection \<open>Appending to the text\<close>











section \<open>Properties of the red flags\<close>

lemmas flag_defs = vague_language_def absolute_statement_def regex_any_word_test_def
  cliche_phrase_def cliche_phrases_def

lemma needsModification_count:
  "needsModification s \<longleftrightarrow>
     2 \<le> (of_bool (50 < length s) + of_bool (length s < 10) + of_bool (vague_language s)
           + of_bool (cliche_phrase s) + of_bool (absolute_statement s) :: nat)"
  by (simp add: needsModification_def)



text \<open>
  Claim C10.  The flags "longer than 50" and "shorter than 10" exclude each other, so a
  sentence is never flagged on its length alone: whenever \<open>needsModification\<close> holds, the
  sentence contains a vague token, matches the cliche pattern or contains an absolute
  word.
\<close>

theorem needsModification_not_on_length_alone:
  assumes "needsModification s"
  shows "\<not> (50 < length s \<and> length s < 10) \<and>
         (vague_language s \<or> cliche_phrase s \<or> absolute_statement s)"
proof -
  have "(of_bool (50 < length s) + of_bool (length s < 10) :: nat) \<le> 1"
    by (simp add: of_bool_def)
  then show ?thesis
    using assms by (auto simp: needsModification_count of_bool_def split: if_splits)
qed

theorem needsModification_not_on_length_alone_witness:
  "needsModification ''I am very excited about all of this'' \<and>
   \<not> (50 < length ''I am very excited about all of this'' \<and>
      length ''I am very excited about all of this'' < 10) \<and>
   (vague_language ''I am very excited about all of this'' \<or>
    cliche_phrase ''I am very excited about all of this'' \<or>
    absolute_statement ''I am very excited about all of this'')"
proof -
  have n: "needsModification ''I am very excited about all of this''"
    by (simp add: needsModification_def flag_defs match_defs)
  show ?thesis
    using needsModification_not_on_length_alone [OF n] n by blast
qed

section \<open>Properties of the heuristic dimension scores\<close>






lemma heuristic_final_score_rounded:
  assumes "heuristic_evaluateContent text = Fin c"
    and "heuristic_evaluateNarrative text = Fin n"
    and "heuristic_evaluateLanguage (split_sentences text) = Fin l"
  shows "final_score (heuristic_evaluateText text)
           = Fin (real_of_int \<lfloor>c * (4 / 10) + n * (4 / 10) + l * (2 / 10) + 1 / 2\<rfloor>)"
  using assms by (simp add: heuristic_evaluateText_def WEIGHTS_def Let_def)

text \<open>
  Claim C2 asks for the top score (step 5, that is 100) on a text without sentences.  The
  code has no such case: for the text \<open>...\<close> the segmentation is empty, \<open>0 / 0\<close> is NaN,
  every comparison of the step function fails and the lowest step is returned, 20.
\<close>

theorem zero_sentences_lowest_step:
  "split_sentences ''...'' = [] \<and>
   heuristic_evaluateLanguage (split_sentences ''...'') = Fin 20 \<and>
   language (heuristic_evaluateText ''...'') = Fin 20 \<and>
   language (heuristic_evaluateText ''...'') \<noteq> Fin 100"
proof -
  have s: "split_sentences ''...'' = []"
    by (simp add: split_sentences_def is_sentence_end_def trim_def)
  have l: "heuristic_evaluateLanguage [] = Fin 20"
    by (simp add: heuristic_evaluateLanguage_def)
  have "language (heuristic_evaluateText ''...'') = heuristic_evaluateLanguage (split_sentences ''...'')"
    by (simp add: heuristic_evaluateText_def Let_def)
  then show ?thesis using s l by simp
qed

section \<open>Properties of the response parser\<close>

lemmas parse_defs = parse_body_def parseEvaluationResponse_def score_here_def feedback_here_def
  parseInt_def trim_def is_space_def is_digit_def



section \<open>Properties of the dimension evaluators\<close>

lemma prompts_differ:
  "content_prompt text \<noteq> narrative_prompt text"
  "content_prompt text \<noteq> language_prompt text"
  "narrative_prompt text \<noteq> language_prompt text"
  by (simp_all add: content_prompt_def narrative_prompt_def language_prompt_def)

lemma message_content_completion: "message_content (completion c) = Inr c"
  by (simp add: message_content_def completion_def and_then_def)




lemma evaluateContent_cases:
  "call_failed (api [(''user'', content_prompt text)]) \<Longrightarrow>
     evaluateContent api text = error_result ''content''"
  "content_not_text (api [(''user'', content_prompt text)]) \<Longrightarrow>
     evaluateContent api text = \<lparr>score = Fin 0, feedback = ''Error parsing evaluation response.''\<rparr>"
  by (auto simp: evaluateContent_def call_failed_def content_not_text_def error_result_def
        parseEvaluationResponse_def parse_body_def
      split: http_outcome.splits sum.splits jsval.splits)

lemma evaluateNarrative_cases:
  "call_failed (api [(''user'', narrative_prompt text)]) \<Longrightarrow>
     evaluateNarrative api text = error_result ''narrative''"
  "content_not_text (api [(''user'', narrative_prompt text)]) \<Longrightarrow>
     evaluateNarrative api text = \<lparr>score = Fin 0, feedback = ''Error parsing evaluation response.''\<rparr>"
  by (auto simp: evaluateNarrative_def call_failed_def content_not_text_def error_result_def
        parseEvaluationResponse_def parse_body_def
      split: http_outcome.splits sum.splits jsval.splits)

lemma evaluateLanguage_cases:
  "call_failed (api [(''user'', language_prompt text)]) \<Longrightarrow>
     evaluateLanguage api text = error_result ''language''"
  "content_not_text (api [(''user'', language_prompt text)]) \<Longrightarrow>
     evaluateLanguage api text = \<lparr>score = Fin 0, feedback = ''Error parsing evaluation response.''\<rparr>"
  by (auto simp: evaluateLanguage_def call_failed_def content_not_text_def error_result_def
        parseEvaluationResponse_def parse_body_def
      split: http_outcome.splits sum.splits jsval.splits)

lemma evaluators_independent:
  "evaluateNarrative (api([(''user'', content_prompt text)] := outcome)) text = evaluateNarrative api text"
  "evaluateLanguage (api([(''user'', content_prompt text)] := outcome)) text = evaluateLanguage api text"
  "evaluateContent (api([(''user'', narrative_prompt text)] := outcome)) text = evaluateContent api text"
  "evaluateLanguage (api([(''user'', narrative_prompt text)] := outcome)) text = evaluateLanguage api text"
  "evaluateContent (api([(''user'', language_prompt text)] := outcome)) text = evaluateContent api text"
  "evaluateNarrative (api([(''user'', language_prompt text)] := outcome)) text = evaluateNarrative api text"
  by (simp_all add: evaluateContent_def evaluateNarrative_def evaluateLanguage_def
        prompts_differ prompts_differ [symmetric])

text \<open>
  Claim C8, as stated, fails on the feedback: when the payload has a message whose
  \<open>content\<close> is \<open>null\<close>, the parser's own handler answers, and the evaluator returns the
  feedback \<open>Error parsing evaluation response.\<close> with the score 0.
\<close>

theorem evaluator_failure_message_counterexample:
  "evaluateContent (\<lambda>m. Json (completion JNull)) ''My statement.''
     = \<lparr>score = Fin 0, feedback = ''Error parsing evaluation response.''\<rparr> \<and>
   evaluateContent (\<lambda>m. Json (completion JNull)) ''My statement.''
     \<noteq> \<lparr>score = Fin 0, feedback = ''Error evaluating content. Please try again.''\<rparr>"
  by (simp add: evaluateContent_def message_content_completion parseEvaluationResponse_def parse_body_def)

text \<open>
  Claim C8, amended.  Each evaluator absorbs every failure of its request and returns a
  result with score 0: with the feedback \<open>Error evaluating <dimension>. Please try again.\<close>
  when the network call is rejected, the body is not JSON or the payload has no
  \<open>choices[0].message\<close>; with the feedback \<open>Error parsing evaluation response.\<close> when the
  content of the message is not a string.  The other two evaluators are unaffected:
  their results do not depend on the outcome of this evaluator's request.
\<close>

theorem evaluator_failure_absorbed:
  "(call_failed (api [(''user'', content_prompt text)]) \<longrightarrow>
      evaluateContent api text = error_result ''content'') \<and>
   (call_failed (api [(''user'', narrative_prompt text)]) \<longrightarrow>
      evaluateNarrative api text = error_result ''narrative'') \<and>
   (call_failed (api [(''user'', language_prompt text)]) \<longrightarrow>
      evaluateLanguage api text = error_result ''language'') \<and>
   (content_not_text (api [(''user'', content_prompt text)]) \<longrightarrow>
      evaluateContent api text = \<lparr>score = Fin 0, feedback = ''Error parsing evaluation response.''\<rparr>) \<and>
   (content_not_text (api [(''user'', narrative_prompt text)]) \<longrightarrow>
      evaluateNarrative api text = \<lparr>score = Fin 0, feedback = ''Error parsing evaluation response.''\<rparr>) \<and>
   (content_not_text (api [(''user'', language_prompt text)]) \<longrightarrow>
      evaluateLanguage api text = \<lparr>score = Fin 0, feedback = ''Error parsing evaluation response.''\<rparr>) \<and>
   evaluateNarrative (api([(''user'', content_prompt text)] := outcome)) text = evaluateNarrative api text \<and>
   evaluateLanguage (api([(''user'', content_prompt text)] := outcome)) text = evaluateLanguage api text \<and>
   evaluateContent (api([(''user'', narrative_prompt text)] := outcome)) text = evaluateContent api text \<and>
   evaluateLanguage (api([(''user'', narrative_prompt text)] := outcome)) text = evaluateLanguage api text \<and>
   evaluateContent (api([(''user'', language_prompt text)] := outcome)) text = evaluateContent api text \<and>
   evaluateNarrative (api([(''user'', language_prompt text)] := outcome)) text = evaluateNarrative api text"
  by (intro conjI impI evaluateContent_cases evaluateNarrative_cases evaluateLanguage_cases
        evaluators_independent)

theorem evaluator_failure_absorbed_witness:
  "call_failed ((\<lambda>m. Rejected) [(''user'', content_prompt ''My statement.'')]) \<and>
   call_failed ((\<lambda>m. Rejected) [(''user'', narrative_prompt ''My statement.'')]) \<and>
   call_failed ((\<lambda>m. Rejected) [(''user'', language_prompt ''My statement.'')]) \<and>
   evaluateContent (\<lambda>m. Rejected) ''My statement.'' = error_result ''content'' \<and>
   evaluateNarrative (\<lambda>m. Rejected) ''My statement.'' = error_result ''narrative'' \<and>
   evaluateLanguage (\<lambda>m. Rejected) ''My statement.'' = error_result ''language'' \<and>
   content_not_text ((\<lambda>m. Json (completion JNull)) [(''user'', content_prompt ''My statement.'')]) \<and>
   content_not_text ((\<lambda>m. Json (completion JNull)) [(''user'', narrative_prompt ''My statement.'')]) \<and>
   content_not_text ((\<lambda>m. Json (completion JNull)) [(''user'', language_prompt ''My statement.'')]) \<and>
   evaluateContent (\<lambda>m. Json (completion JNull)) ''My statement.''
     = \<lparr>score = Fin 0, feedback = ''Error parsing evaluation response.''\<rparr> \<and>
   evaluateNarrative (\<lambda>m. Json (completion JNull)) ''My statement.''
     = \<lparr>score = Fin 0, feedback = ''Error parsing evaluation response.''\<rparr> \<and>
   evaluateLanguage (\<lambda>m. Json (completion JNull)) ''My statement.''
     = \<lparr>score = Fin 0, feedback = ''Error parsing evaluation response.''\<rparr>"
proof -
  have f: "call_failed Rejected" by (simp add: call_failed_def)
  have n: "content_not_text (Json (completion JNull))"
    by (simp add: content_not_text_def message_content_completion)
  show ?thesis
    using evaluator_failure_absorbed [of "\<lambda>m. Rejected" "''My statement.''"]
      evaluator_failure_absorbed [of "\<lambda>m. Json (completion JNull)" "''My statement.''"] f n
    by simp
qed

section \<open>Properties of the orchestrator and of the suggestion generator\<close>

lemma scenario_results:
  "evaluateContent (scenario_api text) text = error_result ''content''"
  "evaluateNarrative (scenario_api text) text = \<lparr>score = Fin 80, feedback = ''Coherent.''\<rparr>"
  "evaluateLanguage (scenario_api text) text = \<lparr>score = Fin 90, feedback = ''Fluent.''\<rparr>"
  by (simp_all add: evaluateContent_def evaluateNarrative_def evaluateLanguage_def scenario_api_def
      prompts_differ prompts_differ [symmetric] message_content_completion error_result_def parse_defs)

lemma evaluateText_final_score:
  assumes "score (evaluateContent api text) = Fin c"
    and "score (evaluateNarrative api text) = Fin n"
    and "score (evaluateLanguage api text) = Fin l"
  shows "final_score (evaluateText api text) = Fin ((c * (4 / 10) + n * (4 / 10) + l * (2 / 10)) / 100)"
  using assms by (simp add: evaluateText_def WEIGHTS_def Let_def)

text \<open>
  Claim C1 asks for \<open>final_score = round(0*0.4 + 80*0.4 + 90*0.2) = 50\<close> when the content
  request fails and the other two dimensions score 80 and 90.  The orchestrator of
  \<open>public/script.js\<close> completes with these three scores, but divides the weighted sum by 100
  and does not round: for every text its \<open>final_score\<close> is then 0.5.
\<close>

theorem evaluateText_divides_by_100:
  "score (content (evaluateText (scenario_api text) text)) = Fin 0 \<and>
   score (narrative (evaluateText (scenario_api text) text)) = Fin 80 \<and>
   score (language (evaluateText (scenario_api text) text)) = Fin 90 \<and>
   final_score (evaluateText (scenario_api text) text) = Fin (1 / 2) \<and>
   final_score (evaluateText (scenario_api text) text) \<noteq> Fin 50"
proof -
  have c: "score (evaluateContent (scenario_api text) text) = Fin 0"
    by (simp add: scenario_results error_result_def)
  have n: "score (evaluateNarrative (scenario_api text) text) = Fin 80"
    by (simp add: scenario_results)
  have l: "score (evaluateLanguage (scenario_api text) text) = Fin 90"
    by (simp add: scenario_results)
  have f: "final_score (evaluateText (scenario_api text) text) = Fin (1 / 2)"
    using evaluateText_final_score [OF c n l] by simp
  have "content (evaluateText (scenario_api text) text) = evaluateContent (scenario_api text) text"
       "narrative (evaluateText (scenario_api text) text) = evaluateNarrative (scenario_api text) text"
       "language (evaluateText (scenario_api text) text) = evaluateLanguage (scenario_api text) text"
    by (simp_all add: evaluateText_def Let_def)
  then show ?thesis using c n l f by simp
qed

text \<open>
  Claim C7 asks for an instruction that reports each dimension's score and feedback.  The
  template reads \<open>scores.content\<close> (an object) where it wants the score and
  \<open>scores.contentFeedback\<close> (not a property) where it wants the feedback, and likewise for
  the other two dimensions: the instruction is the same text whatever the results are.
\<close>

theorem suggestions_prompt_ignores_results:
  "suggestions_prompt text scores =
     ''As an expert SOP evaluator, please provide specific suggestions to improve this Statement of Purpose. Focus on the following aspects:\<newline>\<newline>1. Content ([object Object]/100):\<newline>undefined\<newline>\<newline>2. Narrative Structure ([object Object]/100):\<newline>undefined\<newline>\<newline>3. Language Usage ([object Object]/100):\<newline>undefined\<newline>\<newline>Please analyze the following SOP and provide clear, actionable suggestions for improvement:\<newline>\<newline>''
     @ text @
     ''\<newline>\<newline>Format your response as a bulleted list of specific suggestions, focusing on the most critical improvements needed.'' \<and>
   suggestions_prompt text scores = suggestions_prompt text scores'"
  by (simp add: suggestions_prompt_def template_object_def template_undefined_def)

end
